theory Spec2Isabelle
  imports Complex_Main
begin

section \<open>The defuse tab: countdown and disarm puzzle\<close>

text \<open>
  The component \<open>DefuseTab\<close> of \<open>src/app/page.tsx\<close> keeps eight pieces of React state.
  They are collected in one record; every handler of the component becomes a function
  from the state before the event to the state after it. Sound, vibration and the shake
  animation write no state and are left out. Durations are whole seconds (the setup
  dialog builds them from two clamped integers), so they are modelled as \<open>int\<close>.

  The array \<open>pressed\<close> is a JavaScript array: a slot can hold a boolean, it can be a
  hole (after a write beyond the end), or it can hold \<open>undefined\<close> (a hole copied by
  the spread \<open>[...prev]\<close>).
\<close>

datatype slot = Hole | Undefined | Val bool

fun truthy :: "slot \<Rightarrow> bool" where
  "truthy (Val b) = b"
| "truthy Hole = False"
| "truthy Undefined = False"

record defuse =
  totalSeconds :: int
  timeLeft :: int
  isRunning :: bool
  showSetup :: bool
  showExploded :: bool
  showDisarmed :: bool
  disarmMode :: bool
  pressed :: "slot list"

text \<open>\<open>Array(9).fill(false)\<close>\<close>

definition fresh_pads :: "slot list" where
  "fresh_pads = replicate 9 (Val False)"

text \<open>The values given to \<open>useState\<close> when the tab mounts.\<close>

definition initial_defuse :: defuse where
  "initial_defuse =
     \<lparr>totalSeconds = 0, timeLeft = 0, isRunning = False, showSetup = True,
      showExploded = False, showDisarmed = False, disarmMode = False,
      pressed = fresh_pads\<rparr>"

text \<open>
  The specification speaks of one \<open>outcome\<close>; the component stores it as the two flags
  that open the "exploded" and the "disarmed" dialogs. The close buttons of the dialogs
  clear the flags, so \<open>outcome_of\<close> is the outcome on display, and the component keeps
  no other record of it.
\<close>

datatype outcome = NONE | EXPIRED | DISARMED

definition outcome_of :: "defuse \<Rightarrow> outcome" where
  "outcome_of s =
     (if showExploded s then EXPIRED else if showDisarmed s then DISARMED else NONE)"

subsection \<open>The one-second interval\<close>

text \<open>
  The callback handed to \<open>setInterval\<close>: the updater of \<open>setTimeLeft\<close> with the state
  changes it triggers.
\<close>

definition tick_callback :: "defuse \<Rightarrow> defuse" where
  "tick_callback s =
     (if timeLeft s \<le> 1
      then s\<lparr>isRunning := False, disarmMode := False, showExploded := True, timeLeft := 0\<rparr>
      else s\<lparr>timeLeft := timeLeft s - 1\<rparr>)"

text \<open>
  The effect installs the interval only while \<open>isRunning\<close> holds and clears it
  otherwise, so a second of wall time is a call of the callback exactly when the
  countdown runs.
\<close>

definition tick :: "defuse \<Rightarrow> defuse" where
  "tick s = (if isRunning s then tick_callback s else s)"

subsection \<open>Handlers\<close>

definition applySetup :: "int \<Rightarrow> defuse \<Rightarrow> defuse" where
  "applySetup seconds s =
     s\<lparr>totalSeconds := seconds, timeLeft := seconds, showSetup := False,
       showExploded := False, showDisarmed := False, isRunning := False,
       disarmMode := False, pressed := fresh_pads\<rparr>"

definition startTimer :: "defuse \<Rightarrow> defuse" where
  "startTimer s = (if timeLeft s \<le> 0 then s else s\<lparr>isRunning := True\<rparr>)"

text \<open>
  \<open>pressed.every(Boolean)\<close>: \<open>every\<close> visits only the slots that exist, so a hole
  never makes it fail.
\<close>

definition every_Boolean :: "slot list \<Rightarrow> bool" where
  "every_Boolean xs = list_all (\<lambda>x. x = Hole \<or> truthy x) xs"

definition toggleDisarm :: "defuse \<Rightarrow> defuse" where
  "toggleDisarm s =
     (if \<not> disarmMode s then s\<lparr>pressed := fresh_pads, disarmMode := True\<rparr>
      else if every_Boolean (pressed s)
      then s\<lparr>isRunning := False, disarmMode := False, showDisarmed := True\<rparr>
      else s)"

text \<open>
  \<open>pressPad(i)\<close> for an index \<open>i = 0, 1, 2, \<dots>\<close>. Reading \<open>prev[i]\<close> beyond the end
  gives \<open>undefined\<close>, which is falsy; the spread turns holes into \<open>undefined\<close>; the
  write \<open>next[i] = true\<close> beyond the end extends the array and leaves holes between
  the old end and \<open>i\<close>.
\<close>

definition spread :: "slot list \<Rightarrow> slot list" where
  "spread xs = map (\<lambda>x. if x = Hole then Undefined else x) xs"

definition store_true :: "nat \<Rightarrow> slot list \<Rightarrow> slot list" where
  "store_true i xs =
     (if i < length xs then xs[i := Val True]
      else xs @ replicate (i - length xs) Hole @ [Val True])"

definition pressPad_update :: "nat \<Rightarrow> slot list \<Rightarrow> slot list" where
  "pressPad_update i prev =
     (if i < length prev \<and> truthy (prev ! i) then prev else store_true i (spread prev))"

definition pressPad :: "nat \<Rightarrow> defuse \<Rightarrow> defuse" where
  "pressPad i s = s\<lparr>pressed := pressPad_update i (pressed s)\<rparr>"

subsection \<open>The setup dialog\<close>

text \<open>
  \<open>clampInt\<close> receives the result of the built-in \<open>parseInt\<close>; \<open>None\<close> stands for
  \<open>NaN\<close>.
\<close>

definition clampInt :: "int option \<Rightarrow> int \<Rightarrow> int \<Rightarrow> int" where
  "clampInt n lo hi = (case n of None \<Rightarrow> lo | Some k \<Rightarrow> max lo (min hi k))"

text \<open>
  \<open>submit\<close> of \<open>TimeSetupModal\<close>. Its two arguments are the values of
  \<open>parseInt(m || "0", 10)\<close> and \<open>parseInt(s || "0", 10)\<close>. The first component of
  the result tells whether \<open>setError\<close> was called; \<open>onApply\<close> is
  \<open>(m, s) => applySetup(m * 60 + s)\<close>.
\<close>

datatype setup_error = AtLeastOneSecond

definition submit :: "int option \<Rightarrow> int option \<Rightarrow> defuse \<Rightarrow> setup_error option \<times> defuse" where
  "submit pm ps st =
     (let minutes = clampInt pm 0 999;
          seconds = clampInt ps 0 59;
          total = minutes * 60 + seconds
      in if total \<le> 0 then (Some AtLeastOneSecond, st)
         else (None, applySetup (minutes * 60 + seconds) st))"

subsection \<open>The controls as they are rendered\<close>

text \<open>
  The start and disarm buttons carry a \<open>disabled\<close> attribute, the nine pads exist
  only inside the panel rendered under \<open>disarmMode\<close>, and each dialog exists only
  while its flag is set. A click on a control that is disabled or absent calls no handler.
\<close>

definition start_disabled :: "defuse \<Rightarrow> bool" where
  "start_disabled s \<longleftrightarrow> isRunning s \<or> timeLeft s \<le> 0 \<or> showExploded s \<or> showDisarmed s"

definition disarm_disabled :: "defuse \<Rightarrow> bool" where
  "disarm_disabled s \<longleftrightarrow> showExploded s \<or> showDisarmed s \<or> totalSeconds s = 0"

definition click_start :: "defuse \<Rightarrow> defuse" where
  "click_start s = (if start_disabled s then s else startTimer s)"

definition click_disarm :: "defuse \<Rightarrow> defuse" where
  "click_disarm s = (if disarm_disabled s then s else toggleDisarm s)"

definition click_pad :: "nat \<Rightarrow> defuse \<Rightarrow> defuse" where
  "click_pad i s = (if disarmMode s \<and> i < 9 then pressPad i s else s)"

definition click_apply :: "int option \<Rightarrow> int option \<Rightarrow> defuse \<Rightarrow> defuse" where
  "click_apply pm ps s = (if showSetup s then snd (submit pm ps s) else s)"

datatype defuse_event =
    Apply "int option" "int option"
  | Start
  | Second
  | Disarm
  | Pad nat
  | OpenSetup
  | CloseSetup
  | CloseExploded
  | CloseDisarmed
  | ResetFromExploded
  | ResetFromDisarmed

fun defuse_step :: "defuse_event \<Rightarrow> defuse \<Rightarrow> defuse" where
  "defuse_step (Apply pm ps) s = click_apply pm ps s"
| "defuse_step Start s = click_start s"
| "defuse_step Second s = tick s"
| "defuse_step Disarm s = click_disarm s"
| "defuse_step (Pad i) s = click_pad i s"
| "defuse_step OpenSetup s = s\<lparr>showSetup := True\<rparr>"
| "defuse_step CloseSetup s = s\<lparr>showSetup := False\<rparr>"
| "defuse_step CloseExploded s = s\<lparr>showExploded := False\<rparr>"
| "defuse_step CloseDisarmed s = s\<lparr>showDisarmed := False\<rparr>"
| "defuse_step ResetFromExploded s = s\<lparr>showExploded := False, showSetup := True\<rparr>"
| "defuse_step ResetFromDisarmed s = s\<lparr>showDisarmed := False, showSetup := True\<rparr>"

fun defuse_run :: "defuse_event list \<Rightarrow> defuse \<Rightarrow> defuse" where
  "defuse_run [] s = s"
| "defuse_run (e # es) s = defuse_run es (defuse_step e s)"

section \<open>The domination tab\<close>

text \<open>
  \<open>DominationTab\<close> keeps three pieces of React state (\<open>value\<close>, \<open>active\<close>,
  \<open>fillTimeSec\<close>) and four mutable reference cells; three effects copy each state
  into its cell after a render. Numbers are real numbers and \<open>null\<close> is \<open>None\<close>;
  \<open>NaN\<close> and the infinities do not arise (the fill time is clamped, the time stamps
  are finite). The handlers are given twice: first with exact arithmetic, which is
  enough wherever only the clamp, the comparisons and the symmetry of the two sides
  matter, and then with the rounding of doubles as a parameter, for the statements that
  give the computed value itself. Timestamps are the milliseconds of
  \<open>performance.now()\<close> and are passed to the handlers as an argument.
\<close>

datatype side = Red | Blue

record domination =
  value_st :: real
  active :: "side option"
  fillTimeSec :: real
  valueRef :: real
  activeRef :: "side option"
  fillTimeRef :: real
  lastTickRef :: "real option"

definition initial_domination :: domination where
  "initial_domination =
     \<lparr>value_st = 0, active = None, fillTimeSec = 60,
      valueRef = 0, activeRef = None, fillTimeRef = 60, lastTickRef = None\<rparr>"

text \<open>The three \<open>useEffect\<close> hooks that keep the cells in step with the state.\<close>

definition run_effects :: "domination \<Rightarrow> domination" where
  "run_effects d = d\<lparr>valueRef := value_st d, activeRef := active d, fillTimeRef := fillTimeSec d\<rparr>"

definition synced :: "domination \<Rightarrow> bool" where
  "synced d \<longleftrightarrow> valueRef d = value_st d \<and> activeRef d = active d \<and> fillTimeRef d = fillTimeSec d"

text \<open>\<open>if (next > 100) next = 100; if (next < -100) next = -100;\<close>\<close>

definition clamp_next :: "real \<Rightarrow> real" where
  "clamp_next x = (let n = (if x > 100 then 100 else x) in if n < - 100 then - 100 else n)"

definition direction :: "side \<Rightarrow> real" where
  "direction a = (if a = Red then 1 else - 1)"

text \<open>The callback of the always-on 50 ms interval.\<close>

definition ticker_callback :: "real \<Rightarrow> domination \<Rightarrow> domination" where
  "ticker_callback now d =
     (case activeRef d of
        None \<Rightarrow> d\<lparr>lastTickRef := Some now\<rparr>
      | Some a \<Rightarrow>
          (let last = (case lastTickRef d of None \<Rightarrow> now | Some t \<Rightarrow> t);
               dt = max 0 ((now - last) / 1000);
               stepPerSec = 100 / max 1 (fillTimeRef d);
               next = clamp_next (valueRef d + direction a * stepPerSec * dt);
               d1 = d\<lparr>lastTickRef := Some now\<rparr>;
               d2 = (if next \<noteq> valueRef d then d1\<lparr>valueRef := next, value_st := next\<rparr> else d1)
           in if (a = Red \<and> next \<ge> 100) \<or> (a = Blue \<and> next \<le> - 100)
              then d2\<lparr>active := None\<rparr> else d2))"

definition setActiveAndKick :: "real \<Rightarrow> side option \<Rightarrow> domination \<Rightarrow> domination" where
  "setActiveAndKick now sd d =
     (case sd of
        None \<Rightarrow> d\<lparr>active := None\<rparr>
      | Some a \<Rightarrow>
          (let kickDt = 0.06;
               stepPerSec = 100 / max 1 (fillTimeRef d);
               next = clamp_next (valueRef d + direction a * stepPerSec * kickDt)
           in d\<lparr>active := Some a, valueRef := next, value_st := next, lastTickRef := Some now\<rparr>))"

definition handleReset :: "real \<Rightarrow> domination \<Rightarrow> domination" where
  "handleReset now d =
     (setActiveAndKick now None d)\<lparr>valueRef := 0, value_st := 0, lastTickRef := Some now\<rparr>"

text \<open>
  \<open>onChange\<close> of the fill-time field; the argument is \<open>None\<close> for the empty string
  (which \<open>|| 60\<close> replaces) and the number the field holds otherwise.
\<close>

definition changeFillTime :: "real option \<Rightarrow> domination \<Rightarrow> domination" where
  "changeFillTime v d =
     d\<lparr>fillTimeSec := max 1 (min 3600 (case v of None \<Rightarrow> 60 | Some x \<Rightarrow> x))\<rparr>"

text \<open>
  An event as the engine sees it: the handler, then the render with its effects.
\<close>

definition dom_tick :: "real \<Rightarrow> domination \<Rightarrow> domination" where
  "dom_tick now d = run_effects (ticker_callback now d)"

definition setActor :: "real \<Rightarrow> side option \<Rightarrow> domination \<Rightarrow> domination" where
  "setActor now sd d = run_effects (setActiveAndKick now sd d)"

subsection \<open>The same handlers with rounded arithmetic\<close>

text \<open>
  A JavaScript number is a double: every \<open>+\<close>, \<open>-\<close>, \<open>*\<close> and \<open>/\<close> returns the
  exact result rounded to the nearest double, and the literal \<open>0.06\<close> is the double
  nearest to it. Comparisons, \<open>Math.max\<close> and the constants \<open>0\<close>, \<open>1\<close>, \<open>-1\<close>,
  \<open>100\<close>, \<open>1000\<close> are exact. The two handlers that compute are written once more with
  the rounding as a parameter \<open>rnd\<close>, applied where the source has an operation, in
  the order in which JavaScript evaluates \<open>valueRef.current + dir * stepPerSec * dt\<close>.
  The functions above are the instance with exact arithmetic.
\<close>

definition ticker_callback_fl :: "(real \<Rightarrow> real) \<Rightarrow> real \<Rightarrow> domination \<Rightarrow> domination" where
  "ticker_callback_fl rnd now d =
     (case activeRef d of
        None \<Rightarrow> d\<lparr>lastTickRef := Some now\<rparr>
      | Some a \<Rightarrow>
          (let last = (case lastTickRef d of None \<Rightarrow> now | Some t \<Rightarrow> t);
               dt = max 0 (rnd (rnd (now - last) / 1000));
               stepPerSec = rnd (100 / max 1 (fillTimeRef d));
               next = clamp_next (rnd (valueRef d + rnd (rnd (direction a * stepPerSec) * dt)));
               d1 = d\<lparr>lastTickRef := Some now\<rparr>;
               d2 = (if next \<noteq> valueRef d then d1\<lparr>valueRef := next, value_st := next\<rparr> else d1)
           in if (a = Red \<and> next \<ge> 100) \<or> (a = Blue \<and> next \<le> - 100)
              then d2\<lparr>active := None\<rparr> else d2))"

definition setActiveAndKick_fl ::
  "(real \<Rightarrow> real) \<Rightarrow> real \<Rightarrow> side option \<Rightarrow> domination \<Rightarrow> domination" where
  "setActiveAndKick_fl rnd now sd d =
     (case sd of
        None \<Rightarrow> d\<lparr>active := None\<rparr>
      | Some a \<Rightarrow>
          (let kickDt = rnd 0.06;
               stepPerSec = rnd (100 / max 1 (fillTimeRef d));
               next = clamp_next (rnd (valueRef d + rnd (rnd (direction a * stepPerSec) * kickDt)))
           in d\<lparr>active := Some a, valueRef := next, value_st := next, lastTickRef := Some now\<rparr>))"

definition dom_tick_fl :: "(real \<Rightarrow> real) \<Rightarrow> real \<Rightarrow> domination \<Rightarrow> domination" where
  "dom_tick_fl rnd now d = run_effects (ticker_callback_fl rnd now d)"

definition setActor_fl ::
  "(real \<Rightarrow> real) \<Rightarrow> real \<Rightarrow> side option \<Rightarrow> domination \<Rightarrow> domination" where
  "setActor_fl rnd now sd d = run_effects (setActiveAndKick_fl rnd now sd d)"

text \<open>
  Runs of the tab. The effects are an event of their own, so a run may also let a
  handler see cells that are one render behind.
\<close>

datatype dom_event =
    Kick real "side option"
  | Ticker real
  | FillTime "real option"
  | Reset real
  | Effects

fun dom_step :: "dom_event \<Rightarrow> domination \<Rightarrow> domination" where
  "dom_step (Kick now sd) d = setActiveAndKick now sd d"
| "dom_step (Ticker now) d = ticker_callback now d"
| "dom_step (FillTime v) d = changeFillTime v d"
| "dom_step (Reset now) d = handleReset now d"
| "dom_step Effects d = run_effects d"

fun dom_run :: "dom_event list \<Rightarrow> domination \<Rightarrow> domination" where
  "dom_run [] d = d"
| "dom_run (e # es) d = dom_run es (dom_step e d)"

text \<open>Exchanging the two sides.\<close>

fun opposite :: "side \<Rightarrow> side" where
  "opposite Red = Blue"
| "opposite Blue = Red"

definition mirror :: "domination \<Rightarrow> domination" where
  "mirror d =
     d\<lparr>value_st := - value_st d, valueRef := - valueRef d,
       active := map_option opposite (active d),
       activeRef := map_option opposite (activeRef d)\<rparr>"

section \<open>Invariants and example states\<close>

text \<open>Both copies of the bar's value lie between the two bounds.\<close>

definition in_bounds :: "domination \<Rightarrow> bool" where
  "in_bounds d \<longleftrightarrow>
     - 100 \<le> value_st d \<and> value_st d \<le> 100 \<and> - 100 \<le> valueRef d \<and> valueRef d \<le> 100"

text \<open>The fill time and its cell lie in the range the input field clamps to.\<close>

definition fill_ok :: "domination \<Rightarrow> bool" where
  "fill_ok d \<longleftrightarrow>
     1 \<le> fillTimeSec d \<and> fillTimeSec d \<le> 3600 \<and> 1 \<le> fillTimeRef d \<and> fillTimeRef d \<le> 3600"

text \<open>
  Five seconds are set up, the disarm panel is opened and all nine pads are pressed.
\<close>

definition all_pressed_example :: defuse where
  "all_pressed_example =
     defuse_run [Apply (Some 0) (Some 5), Disarm, Pad 0, Pad 1, Pad 2, Pad 3, Pad 4,
       Pad 5, Pad 6, Pad 7, Pad 8] initial_defuse"

text \<open>The same run, followed by the second click on the disarm button.\<close>

definition disarmed_example :: defuse where
  "disarmed_example =
     defuse_run [Apply (Some 0) (Some 5), Disarm, Pad 0, Pad 1, Pad 2, Pad 3, Pad 4,
       Pad 5, Pad 6, Pad 7, Pad 8, Disarm] initial_defuse"

text \<open>
  After that, the "disarmed" dialog is closed with its close button and the start
  button is clicked.
\<close>

definition restarted_example :: defuse where
  "restarted_example =
     defuse_run [Apply (Some 0) (Some 5), Disarm, Pad 0, Pad 1, Pad 2, Pad 3, Pad 4,
       Pad 5, Pad 6, Pad 7, Pad 8, Disarm, CloseDisarmed, Start] initial_defuse"

text \<open>The fill time is set to ten seconds and rendered.\<close>

definition ten_second_fill :: domination where
  "ten_second_fill = run_effects (changeFillTime (Some 10) initial_domination)"

text \<open>
  Red is pressed at time 0, the ticker fires a minute later and completes the capture,
  and red is pressed once more a second after that.
\<close>

definition pressed_at_full :: domination where
  "pressed_at_full =
     dom_run [Kick 0 (Some Red), Effects, Ticker 60000, Effects, Kick 61000 (Some Red), Effects]
       initial_domination"

section \<open>Properties of the countdown\<close>

subsection \<open>Auxiliary facts\<close>

lemma every_Boolean_Val: "every_Boolean (map Val bs) \<longleftrightarrow> list_all id bs"
  by (induction bs) (simp_all add: every_Boolean_def)

lemma spread_Val: "spread (map Val bs) = map Val bs"
  by (simp add: spread_def)

lemma pressPad_update_Val:
  assumes "i < length bs"
  shows "pressPad_update i (map Val bs) = map Val (bs[i := True])"
proof (cases "bs ! i")
  case True
  then have "bs[i := True] = bs"
    by (metis list_update_id)
  with True assms show ?thesis
    by (simp add: pressPad_update_def)
next
  case False
  with assms show ?thesis
    by (simp add: pressPad_update_def spread_Val store_true_def map_update)
qed

lemma store_true_hit:
  "i < length (store_true i xs) \<and> store_true i xs ! i = Val True"
  by (simp add: store_true_def nth_append)

lemma truthy_Val_True: "truthy x \<longleftrightarrow> x = Val True"
  by (cases x) simp_all

lemma pressPad_update_hit:
  "i < length (pressPad_update i xs) \<and> pressPad_update i xs ! i = Val True"
proof (cases "i < length xs \<and> truthy (xs ! i)")
  case True
  then show ?thesis by (simp add: pressPad_update_def truthy_Val_True)
next
  case False
  then have "pressPad_update i xs = store_true i (spread xs)"
    by (auto simp add: pressPad_update_def)
  then show ?thesis by (simp add: store_true_hit)
qed

lemma pressPad_update_idem:
  "pressPad_update i (pressPad_update i xs) = pressPad_update i xs"
  using pressPad_update_hit [of i xs]
  by (simp add: pressPad_update_def [of i "pressPad_update i xs"])

lemma all_pressed_example_eq:
  "all_pressed_example =
     \<lparr>totalSeconds = 5, timeLeft = 5, isRunning = False, showSetup = False,
      showExploded = False, showDisarmed = False, disarmMode = True,
      pressed = map Val (replicate 9 True)\<rparr>"
  by (simp add: all_pressed_example_def initial_defuse_def click_apply_def submit_def
      clampInt_def applySetup_def click_disarm_def disarm_disabled_def toggleDisarm_def
      fresh_pads_def click_pad_def pressPad_def pressPad_update_def store_true_def
      spread_def numeral_eq_Suc)

lemma disarmed_example_eq:
  "disarmed_example =
     \<lparr>totalSeconds = 5, timeLeft = 5, isRunning = False, showSetup = False,
      showExploded = False, showDisarmed = True, disarmMode = False,
      pressed = replicate 9 (Val True)\<rparr>"
  by (simp add: disarmed_example_def initial_defuse_def click_apply_def submit_def
      clampInt_def applySetup_def click_disarm_def disarm_disabled_def toggleDisarm_def
      fresh_pads_def click_pad_def pressPad_def pressPad_update_def store_true_def
      spread_def every_Boolean_def numeral_eq_Suc)

lemma restarted_example_eq:
  "restarted_example =
     \<lparr>totalSeconds = 5, timeLeft = 5, isRunning = True, showSetup = False,
      showExploded = False, showDisarmed = False, disarmMode = False,
      pressed = replicate 9 (Val True)\<rparr>"
  by (simp add: restarted_example_def initial_defuse_def click_apply_def submit_def
      clampInt_def applySetup_def click_disarm_def disarm_disabled_def toggleDisarm_def
      fresh_pads_def click_pad_def pressPad_def pressPad_update_def store_true_def
      spread_def every_Boolean_def click_start_def start_disabled_def startTimer_def
      numeral_eq_Suc)

subsection \<open>Countdown tick\<close>

text \<open>
  C1. While the countdown runs, a tick that finds at most one second left sets the
  remaining time to 0, stops the countdown, records the outcome EXPIRED and leaves the
  disarm attempt; a tick that finds more than one second left takes exactly one second
  off and touches nothing else. After a setup of 5 seconds and a start, four ticks
  leave one second with the countdown running, and the fifth leaves 0 seconds, the
  countdown stopped and the outcome EXPIRED.
\<close>

theorem tick_contract:
  "(isRunning s \<longrightarrow>
      tick s =
        (if timeLeft s \<le> 1
         then s\<lparr>timeLeft := 0, isRunning := False, showExploded := True, disarmMode := False\<rparr>
         else s\<lparr>timeLeft := timeLeft s - 1\<rparr>)
      \<and> (timeLeft s \<le> 1 \<longrightarrow> outcome_of (tick s) = EXPIRED))
   \<and> timeLeft ((tick ^^ 4) (startTimer (applySetup 5 s0))) = 1
   \<and> isRunning ((tick ^^ 4) (startTimer (applySetup 5 s0)))
   \<and> timeLeft ((tick ^^ 5) (startTimer (applySetup 5 s0))) = 0
   \<and> \<not> isRunning ((tick ^^ 5) (startTimer (applySetup 5 s0)))
   \<and> outcome_of ((tick ^^ 5) (startTimer (applySetup 5 s0))) = EXPIRED"
  by (simp add: tick_def tick_callback_def startTimer_def applySetup_def outcome_of_def
      numeral_eq_Suc)

theorem tick_contract_witness:
  "isRunning (startTimer (applySetup 2 initial_defuse))
   \<and> timeLeft (tick (startTimer (applySetup 2 initial_defuse))) = 1
   \<and> isRunning (tick (startTimer (applySetup 2 initial_defuse)))
   \<and> tick (tick (startTimer (applySetup 2 initial_defuse))) =
       (applySetup 2 initial_defuse)\<lparr>timeLeft := 0, showExploded := True\<rparr>
   \<and> outcome_of (tick (tick (startTimer (applySetup 2 initial_defuse)))) = EXPIRED"
  using tick_contract [of "startTimer (applySetup 2 initial_defuse)" initial_defuse]
    tick_contract [of "tick (startTimer (applySetup 2 initial_defuse))" initial_defuse]
  by (simp add: tick_def tick_callback_def startTimer_def applySetup_def outcome_of_def
      initial_defuse_def)

subsection \<open>Confirming the disarm\<close>

text \<open>
  C4. With no outcome yet and a disarm attempt under way on the nine switches, the
  second call of \<open>toggleDisarm\<close> does one of two things. If all nine switches are set,
  the outcome becomes DISARMED and the countdown stops (the attempt is closed, nothing
  else changes). If at least one switch is not set, the state stays exactly as it was:
  same outcome, attempt still active, same switches.
\<close>

theorem disarm_confirm_contract:
  assumes "outcome_of s = NONE" and "disarmMode s"
    and "pressed s = map Val bs" and "length bs = 9"
  shows "toggleDisarm s =
           (if list_all id bs
            then s\<lparr>isRunning := False, disarmMode := False, showDisarmed := True\<rparr>
            else s)
     \<and> (list_all id bs \<longrightarrow>
           outcome_of (toggleDisarm s) = DISARMED \<and> \<not> isRunning (toggleDisarm s))
     \<and> (\<not> list_all id bs \<longrightarrow>
           outcome_of (toggleDisarm s) = outcome_of s \<and> disarmMode (toggleDisarm s)
           \<and> pressed (toggleDisarm s) = pressed s)"
  using assms
  by (simp add: toggleDisarm_def every_Boolean_Val outcome_of_def split: if_splits)

theorem disarm_confirm_contract_witness:
  "outcome_of all_pressed_example = NONE \<and> disarmMode all_pressed_example
   \<and> pressed all_pressed_example = map Val (replicate 9 True)
   \<and> outcome_of (toggleDisarm all_pressed_example) = DISARMED
   \<and> \<not> isRunning (toggleDisarm all_pressed_example)
   \<and> toggleDisarm (all_pressed_example\<lparr>pressed := map Val (replicate 8 True @ [False])\<rparr>) =
       all_pressed_example\<lparr>pressed := map Val (replicate 8 True @ [False])\<rparr>"
proof -
  have h1: "outcome_of all_pressed_example = NONE"
    and h2: "disarmMode all_pressed_example"
    and h3: "pressed all_pressed_example = map Val (replicate 9 True)"
    by (simp_all add: all_pressed_example_eq outcome_of_def)
  have k1: "outcome_of (all_pressed_example\<lparr>pressed := map Val (replicate 8 True @ [False])\<rparr>) = NONE"
    and k2: "disarmMode (all_pressed_example\<lparr>pressed := map Val (replicate 8 True @ [False])\<rparr>)"
    and k3: "pressed (all_pressed_example\<lparr>pressed := map Val (replicate 8 True @ [False])\<rparr>)
       = map Val (replicate 8 True @ [False])"
    by (simp_all add: all_pressed_example_eq outcome_of_def)
  have len: "length (replicate 9 True) = 9" "length (replicate 8 True @ [False]) = 9"
    by simp_all
  from disarm_confirm_contract [OF h1 h2 h3 len(1), THEN conjunct2, THEN conjunct1]
  have a: "outcome_of (toggleDisarm all_pressed_example) = DISARMED
      \<and> \<not> isRunning (toggleDisarm all_pressed_example)"
    by (simp add: list_all_iff)
  from disarm_confirm_contract [OF k1 k2 k3 len(2), THEN conjunct1]
  have b: "toggleDisarm (all_pressed_example\<lparr>pressed := map Val (replicate 8 True @ [False])\<rparr>) =
       all_pressed_example\<lparr>pressed := map Val (replicate 8 True @ [False])\<rparr>"
    by (simp add: list_all_iff)
  from a b h1 h2 h3 show ?thesis by blast
qed

subsection \<open>Starting after a disarm\<close>

text \<open>
  C5. The property: the countdown never runs while the outcome is not NONE, and a
  start in a state with an outcome, such as a disarmed bomb with time left, changes
  nothing until the countdown is set up again. The code keeps this only while the
  "disarmed" dialog is open. Five seconds are set up and the bomb is disarmed: the
  outcome is DISARMED, five seconds remain, the countdown stands, and a click on the
  start button changes nothing because the button is disabled. The dialog's close
  button then clears the flag that disabled the button, and a click on the start
  button starts the countdown again, without a new setup, with the five seconds
  still left; five ticks later the outcome is EXPIRED.
\<close>

theorem start_after_disarm:
  "outcome_of disarmed_example = DISARMED
   \<and> timeLeft disarmed_example = 5
   \<and> \<not> isRunning disarmed_example
   \<and> start_disabled disarmed_example
   \<and> click_start disarmed_example = disarmed_example
   \<and> restarted_example = defuse_run [CloseDisarmed, Start] disarmed_example
   \<and> isRunning restarted_example
   \<and> timeLeft restarted_example = 5
   \<and> outcome_of (defuse_run [Second, Second, Second, Second, Second] restarted_example) = EXPIRED"
  by (simp add: restarted_example_eq disarmed_example_eq outcome_of_def click_start_def
      start_disabled_def startTimer_def tick_def tick_callback_def)

subsection \<open>Pressing a pad\<close>

text \<open>
  C8, as the code has it. For an index inside the array, \<open>pressPad\<close> sets that switch
  to true and changes nothing else, whether or not a disarm attempt is active; when the
  switch is already set the state is returned unchanged, and pressing the same index
  twice equals pressing it once. The handler guards neither the attempt nor the range:
  after \<open>pressPad(i)\<close> the slot \<open>i\<close> exists and holds true for every \<open>i\<close>. The guard is
  in the rendering: the pads exist only while the attempt is active, one for each of
  the indices 0 to 8, so a press through the rendered controls does nothing when the
  attempt is inactive or the index is 9 or more.
\<close>

theorem press_contract:
  "(pressed s = map Val bs \<and> i < length bs \<longrightarrow>
      pressPad i s = s\<lparr>pressed := map Val (bs[i := True])\<rparr>)
   \<and> (i < length (pressed s) \<and> truthy (pressed s ! i) \<longrightarrow> pressPad i s = s)
   \<and> pressPad i (pressPad i s) = pressPad i s
   \<and> i < length (pressed (pressPad i s)) \<and> pressed (pressPad i s) ! i = Val True
   \<and> (disarmMode s \<and> i < 9 \<longrightarrow> click_pad i s = pressPad i s)
   \<and> (\<not> disarmMode s \<or> 9 \<le> i \<longrightarrow> click_pad i s = s)"
proof -
  have a: "pressed s = map Val bs \<and> i < length bs \<longrightarrow>
      pressPad i s = s\<lparr>pressed := map Val (bs[i := True])\<rparr>"
    by (simp add: pressPad_def pressPad_update_Val)
  have b: "i < length (pressed s) \<and> truthy (pressed s ! i) \<longrightarrow> pressPad i s = s"
    by (simp add: pressPad_def pressPad_update_def)
  have c: "pressPad i (pressPad i s) = pressPad i s"
    by (simp add: pressPad_def pressPad_update_idem)
  have d: "i < length (pressed (pressPad i s)) \<and> pressed (pressPad i s) ! i = Val True"
    by (simp add: pressPad_def pressPad_update_hit)
  have e: "disarmMode s \<and> i < 9 \<longrightarrow> click_pad i s = pressPad i s"
    by (simp add: click_pad_def)
  have f: "\<not> disarmMode s \<or> 9 \<le> i \<longrightarrow> click_pad i s = s"
    by (auto simp add: click_pad_def)
  from a b c d e f show ?thesis by blast
qed

theorem press_contract_witness:
  "pressed (toggleDisarm initial_defuse) = map Val (replicate 9 False)
   \<and> disarmMode (toggleDisarm initial_defuse)
   \<and> pressed (click_pad 4 (toggleDisarm initial_defuse)) =
       map Val [False, False, False, False, True, False, False, False, False]
   \<and> click_pad 4 initial_defuse = initial_defuse
   \<and> click_pad 9 (toggleDisarm initial_defuse) = toggleDisarm initial_defuse"
proof -
  have h: "pressed (toggleDisarm initial_defuse) = map Val (replicate 9 False)"
    and m: "disarmMode (toggleDisarm initial_defuse)"
    and n: "\<not> disarmMode initial_defuse"
    by (simp_all add: toggleDisarm_def initial_defuse_def fresh_pads_def)
  from press_contract [of "toggleDisarm initial_defuse" "replicate 9 False" 4]
    press_contract [of initial_defuse "[]" 4]
    press_contract [of "toggleDisarm initial_defuse" "[]" 9] h m n
  show ?thesis by (simp add: numeral_eq_Suc)
qed

text \<open>
  With no attempt active, \<open>pressPad(0)\<close> sets the first switch; with an attempt active,
  \<open>pressPad(9)\<close> appends a tenth slot.
\<close>

theorem press_counterexample:
  "\<not> disarmMode initial_defuse
   \<and> pressed (pressPad 0 initial_defuse) \<noteq> pressed initial_defuse
   \<and> pressed (pressPad 0 initial_defuse) = Val True # replicate 8 (Val False)
   \<and> pressed (pressPad 9 (toggleDisarm initial_defuse)) \<noteq> pressed (toggleDisarm initial_defuse)
   \<and> pressed (pressPad 9 (toggleDisarm initial_defuse)) = replicate 9 (Val False) @ [Val True]"
  by (simp add: pressPad_def pressPad_update_def initial_defuse_def fresh_pads_def
      store_true_def spread_def toggleDisarm_def numeral_eq_Suc)

subsection \<open>Setting the countdown up\<close>

text \<open>
  C9. For every duration above 0, \<open>applySetup\<close> sets the total and the remaining time
  to it, stops the countdown, clears the outcome and resets the puzzle (no attempt,
  nine switches false). The setup dialog computes the duration from its two clamped
  fields; when that duration is above 0 it applies it, and when it is 0 or less it
  reports the error and leaves the countdown state as it was.
\<close>

theorem configure_contract:
  "(0 < d \<longrightarrow>
      applySetup d s =
        \<lparr>totalSeconds = d, timeLeft = d, isRunning = False, showSetup = False,
         showExploded = False, showDisarmed = False, disarmMode = False,
         pressed = replicate 9 (Val False)\<rparr>
      \<and> outcome_of (applySetup d s) = NONE)
   \<and> (0 < clampInt pm 0 999 * 60 + clampInt ps 0 59 \<longrightarrow>
        submit pm ps s = (None, applySetup (clampInt pm 0 999 * 60 + clampInt ps 0 59) s))
   \<and> (clampInt pm 0 999 * 60 + clampInt ps 0 59 \<le> 0 \<longrightarrow>
        submit pm ps s = (Some AtLeastOneSecond, s))"
  by (cases s) (simp add: applySetup_def submit_def Let_def outcome_of_def fresh_pads_def)

theorem configure_contract_witness:
  "submit (Some 1) (Some 30) disarmed_example =
     (None, \<lparr>totalSeconds = 90, timeLeft = 90, isRunning = False, showSetup = False,
         showExploded = False, showDisarmed = False, disarmMode = False,
         pressed = replicate 9 (Val False)\<rparr>)
   \<and> submit (Some 0) (Some 0) disarmed_example = (Some AtLeastOneSecond, disarmed_example)
   \<and> submit None (Some (- 3)) disarmed_example = (Some AtLeastOneSecond, disarmed_example)"
  using configure_contract [of 90 disarmed_example "Some 1" "Some 30"]
    configure_contract [of 90 disarmed_example "Some 0" "Some 0"]
    configure_contract [of 90 disarmed_example None "Some (- 3)"]
  by (simp add: clampInt_def)

section \<open>Properties of the domination bar\<close>

subsection \<open>Auxiliary facts\<close>

lemma clamp_next_eq: "clamp_next x = max (- 100) (min 100 x)"
  by (simp add: clamp_next_def Let_def max_def min_def)

lemma clamp_next_bounds: "- 100 \<le> clamp_next x \<and> clamp_next x \<le> 100"
  by (simp add: clamp_next_eq)

lemma clamp_next_uminus: "clamp_next (- x) = - clamp_next x"
  by (simp add: clamp_next_def Let_def)

lemma clamp_hi:
  "100 \<le> max (- 100) (min 100 (x::real)) \<longleftrightarrow> max (- 100) (min 100 x) = 100"
  by (auto simp add: max_def min_def)

lemma clamp_lo:
  "max (- 100) (min 100 (x::real)) \<le> - 100 \<longleftrightarrow> max (- 100) (min 100 x) = - 100"
  by (auto simp add: max_def min_def)

lemma synced_effects: "synced (run_effects d)"
  by (simp add: synced_def run_effects_def)

lemma effects_after:
  "fillTimeRef d = fillTimeSec d \<Longrightarrow>
   run_effects (d\<lparr>value_st := v, valueRef := w, lastTickRef := l, active := act\<rparr>) =
     d\<lparr>value_st := v, valueRef := v, active := act, activeRef := act, lastTickRef := l\<rparr>"
  by (cases d) (simp add: run_effects_def)

lemma effects_idle:
  "synced d \<Longrightarrow> run_effects (d\<lparr>lastTickRef := l\<rparr>) = d\<lparr>lastTickRef := l\<rparr>"
  by (cases d) (simp add: run_effects_def synced_def)

text \<open>
  The callback on a state whose value cell agrees with the value state: the test
  \<open>next !== valueRef.current\<close> only saves a write.
\<close>

lemma ticker_active:
  assumes "activeRef d = Some a" and "valueRef d = value_st d"
  shows "ticker_callback now d =
     (let dt = (case lastTickRef d of None \<Rightarrow> 0 | Some t \<Rightarrow> max 0 ((now - t) / 1000));
          v = clamp_next (value_st d + direction a * (100 / max 1 (fillTimeRef d)) * dt)
      in d\<lparr>value_st := v, valueRef := v, lastTickRef := Some now,
           active := (if (a = Red \<and> 100 \<le> v) \<or> (a = Blue \<and> v \<le> - 100) then None
                      else active d)\<rparr>)"
proof -
  define dt where "dt = (case lastTickRef d of None \<Rightarrow> 0 | Some t \<Rightarrow> max 0 ((now - t) / 1000))"
  define v where "v = clamp_next (value_st d + direction a * (100 / max 1 (fillTimeRef d)) * dt)"
  have dt: "max 0 ((now - (case lastTickRef d of None \<Rightarrow> now | Some t \<Rightarrow> t)) / 1000) = dt"
    by (simp add: dt_def split: option.splits)
  have "ticker_callback now d =
      (let d1 = d\<lparr>lastTickRef := Some now\<rparr>;
           d2 = (if v \<noteq> value_st d then d1\<lparr>valueRef := v, value_st := v\<rparr> else d1)
       in if (a = Red \<and> 100 \<le> v) \<or> (a = Blue \<and> v \<le> - 100)
          then d2\<lparr>active := None\<rparr> else d2)"
    unfolding ticker_callback_def assms option.case Let_def dt v_def [symmetric] ..
  also have "\<dots> = d\<lparr>value_st := v, valueRef := v, lastTickRef := Some now,
           active := (if (a = Red \<and> 100 \<le> v) \<or> (a = Blue \<and> v \<le> - 100) then None
                      else active d)\<rparr>"
    using assms(2) by (cases d) (simp add: Let_def)
  finally show ?thesis
    unfolding Let_def dt_def [symmetric] v_def [symmetric] .
qed

lemma tick_fields:
  assumes "synced d" and "active d = Some a"
  shows "value_st (dom_tick now d) =
           clamp_next (value_st d + direction a * (100 / max 1 (fillTimeRef d)) *
             (case lastTickRef d of None \<Rightarrow> 0 | Some t \<Rightarrow> max 0 ((now - t) / 1000)))"
    and "active (dom_tick now d) =
           (if (a = Red \<and> 100 \<le> value_st (dom_tick now d))
               \<or> (a = Blue \<and> value_st (dom_tick now d) \<le> - 100) then None else Some a)"
proof -
  from assms have ref: "activeRef d = Some a" "valueRef d = value_st d"
    by (simp_all add: synced_def)
  show "value_st (dom_tick now d) =
           clamp_next (value_st d + direction a * (100 / max 1 (fillTimeRef d)) *
             (case lastTickRef d of None \<Rightarrow> 0 | Some t \<Rightarrow> max 0 ((now - t) / 1000)))"
    by (simp add: dom_tick_def ticker_active [OF ref] run_effects_def Let_def)
  then show "active (dom_tick now d) =
           (if (a = Red \<and> 100 \<le> value_st (dom_tick now d))
               \<or> (a = Blue \<and> value_st (dom_tick now d) \<le> - 100) then None else Some a)"
    using assms(2) by (auto simp add: dom_tick_def ticker_active [OF ref] run_effects_def Let_def)
qed

lemma tick_idle_fields:
  assumes "synced d" and "active d = None"
  shows "active (dom_tick now d) = None"
  using assms by (simp add: dom_tick_def ticker_callback_def run_effects_def synced_def)

lemma kick_fields:
  "active (setActor now (Some a) d) = Some a"
  "lastTickRef (setActor now (Some a) d) = Some now"
  "fillTimeSec (setActor now (Some a) d) = fillTimeSec d"
  "fillTimeRef (setActor now (Some a) d) = fillTimeSec d"
  "value_st (setActor now (Some a) d) =
     clamp_next (valueRef d + direction a * (100 / max 1 (fillTimeRef d)) * 0.06)"
  by (simp_all add: setActor_def setActiveAndKick_def run_effects_def Let_def)

lemma step_nonneg:
  "0 \<le> 100 / max 1 (f::real) * (case l of None \<Rightarrow> 0 | Some t \<Rightarrow> max 0 ((now - t) / 1000))"
  by (cases l) simp_all

text \<open>With exact arithmetic the rounded handlers are the handlers above.\<close>

lemma ticker_callback_exact: "ticker_callback_fl (\<lambda>x. x) now d = ticker_callback now d"
  by (simp add: ticker_callback_fl_def ticker_callback_def)

lemma setActiveAndKick_exact: "setActiveAndKick_fl (\<lambda>x. x) now sd d = setActiveAndKick now sd d"
  by (simp add: setActiveAndKick_fl_def setActiveAndKick_def)

lemma in_bounds_ticker: "in_bounds d \<Longrightarrow> in_bounds (ticker_callback now d)"
  using clamp_next_bounds
  by (auto simp add: in_bounds_def ticker_callback_def Let_def split: option.splits)

lemma in_bounds_kick: "in_bounds d \<Longrightarrow> in_bounds (setActiveAndKick now sd d)"
  using clamp_next_bounds
  by (auto simp add: in_bounds_def setActiveAndKick_def Let_def split: option.splits)

lemma in_bounds_step: "in_bounds d \<Longrightarrow> in_bounds (dom_step e d)"
proof (cases e)
  case (Kick now sd)
  then show "in_bounds d \<Longrightarrow> ?thesis" by (simp add: in_bounds_kick)
next
  case (Ticker now)
  then show "in_bounds d \<Longrightarrow> ?thesis" by (simp add: in_bounds_ticker)
next
  case (FillTime v)
  then show "in_bounds d \<Longrightarrow> ?thesis" by (simp add: in_bounds_def changeFillTime_def)
next
  case (Reset now)
  then show "in_bounds d \<Longrightarrow> ?thesis" by (simp add: in_bounds_def handleReset_def)
next
  case Effects
  then show "in_bounds d \<Longrightarrow> ?thesis" by (simp add: in_bounds_def run_effects_def)
qed

lemma in_bounds_run: "in_bounds d \<Longrightarrow> in_bounds (dom_run evs d)"
  by (induction evs arbitrary: d) (simp_all add: in_bounds_step)

text \<open>
  The fill time of every state of a run is in \<open>[1, 3600]\<close>, so that the guard
  \<open>Math.max(1, fillTimeRef.current)\<close> never changes the rate.
\<close>

lemma fill_ok_step: "fill_ok d \<Longrightarrow> fill_ok (dom_step e d)"
  by (cases e)
    (auto simp add: fill_ok_def setActiveAndKick_def ticker_callback_def changeFillTime_def
      handleReset_def run_effects_def Let_def split: option.splits)

lemma fill_ok_run: "fill_ok (dom_run evs initial_domination)"
proof -
  have "fill_ok d \<Longrightarrow> fill_ok (dom_run evs d)" for d
    by (induction evs arbitrary: d) (simp_all add: fill_ok_step)
  moreover have "fill_ok initial_domination"
    by (simp add: fill_ok_def initial_domination_def)
  ultimately show ?thesis by blast
qed

lemma direction_opposite: "direction (opposite a) = - direction a"
  by (cases a) (simp_all add: direction_def)

lemma opposite_Red: "opposite a = Red \<longleftrightarrow> a = Blue"
  by (cases a) simp_all

lemma opposite_Blue: "opposite a = Blue \<longleftrightarrow> a = Red"
  by (cases a) simp_all

lemma mirror_effects: "run_effects (mirror d) = mirror (run_effects d)"
  by (simp add: run_effects_def mirror_def)

lemma mirror_ticker: "ticker_callback now (mirror d) = mirror (ticker_callback now d)"
proof (cases "activeRef d")
  case None
  then show ?thesis
    by (simp add: ticker_callback_def mirror_def)
next
  case (Some a)
  define dt where "dt = max 0 ((now - (case lastTickRef d of None \<Rightarrow> now | Some t \<Rightarrow> t)) / 1000)"
  define x where "x = valueRef d + direction a * (100 / max 1 (fillTimeRef d)) * dt"
  have neg: "- valueRef d + direction (opposite a) * (100 / max 1 (fillTimeRef d)) * dt = - x"
    by (simp add: x_def direction_opposite)
  have m: "activeRef (mirror d) = Some (opposite a)" "valueRef (mirror d) = - valueRef d"
    "fillTimeRef (mirror d) = fillTimeRef d" "lastTickRef (mirror d) = lastTickRef d"
    using Some by (simp_all add: mirror_def)
  have l: "ticker_callback now d =
      (let next = clamp_next x; d1 = d\<lparr>lastTickRef := Some now\<rparr>;
           d2 = (if next \<noteq> valueRef d then d1\<lparr>valueRef := next, value_st := next\<rparr> else d1)
       in if (a = Red \<and> next \<ge> 100) \<or> (a = Blue \<and> next \<le> - 100)
          then d2\<lparr>active := None\<rparr> else d2)"
    unfolding ticker_callback_def Some option.case Let_def dt_def [symmetric] x_def [symmetric] ..
  have r: "ticker_callback now (mirror d) =
      (let next = - clamp_next x; d1 = (mirror d)\<lparr>lastTickRef := Some now\<rparr>;
           d2 = (if next \<noteq> - valueRef d then d1\<lparr>valueRef := next, value_st := next\<rparr> else d1)
       in if (a = Blue \<and> next \<ge> 100) \<or> (a = Red \<and> next \<le> - 100)
          then d2\<lparr>active := None\<rparr> else d2)"
    unfolding ticker_callback_def m option.case Let_def dt_def [symmetric] neg
      opposite_Red opposite_Blue clamp_next_uminus ..
  show ?thesis
    unfolding l r Let_def
    by (cases a) (simp_all add: mirror_def)
qed

lemma mirror_kick:
  "setActiveAndKick now (map_option opposite sd) (mirror d) = mirror (setActiveAndKick now sd d)"
proof (cases sd)
  case None
  then show ?thesis by (simp add: setActiveAndKick_def mirror_def)
next
  case (Some a)
  have "clamp_next (- valueRef d + direction (opposite a) * (100 / max 1 (fillTimeRef d)) * 0.06)
      = - clamp_next (valueRef d + direction a * (100 / max 1 (fillTimeRef d)) * 0.06)"
    by (simp add: direction_opposite clamp_next_uminus [symmetric])
  with Some show ?thesis
    by (simp add: setActiveAndKick_def mirror_def Let_def)
qed

lemma pressed_at_full_fields:
  "value_st pressed_at_full = 100 \<and> active pressed_at_full = Some Red"
  by (simp add: pressed_at_full_def initial_domination_def setActiveAndKick_def
      ticker_callback_def run_effects_def clamp_next_def direction_def Let_def)

lemma ten_second_fill_eq:
  "ten_second_fill =
      \<lparr>value_st = 0, active = None, fillTimeSec = 10,
       valueRef = 0, activeRef = None, fillTimeRef = 10, lastTickRef = None\<rparr>"
  by (simp add: ten_second_fill_def initial_domination_def changeFillTime_def run_effects_def)

subsection \<open>The ticker\<close>

text \<open>
  C2. On a rendered state with a fill time of at least one second, a tick at time
  \<open>now\<close> (milliseconds) does the following, in the arithmetic of doubles (every
  operation rounded by \<open>rnd\<close>, for every rounding). With no actor it only stamps the
  time: value and actor stay as they are. With an actor it takes the seconds since the
  last stamp, \<open>dt = max 0 ((now - last) / 1000)\<close> (with \<open>last = now\<close> when there is no
  stamp yet), moves the value by \<open>direction * (100 / fillTime) * dt\<close> with direction
  \<open>+1\<close> for red and \<open>-1\<close> for blue, clamps it to \<open>[-100, 100]\<close>, stamps the time, and
  clears the actor when the value has reached the bound on the actor's side. As a
  consequence, after an idle tick a press followed by a tick moves the bar by the kick
  and by the time since the press only: no time from before the press is counted.
\<close>

theorem domination_tick_contract:
  assumes "synced d" and "1 \<le> fillTimeSec d"
  shows "dom_tick_fl rnd now d =
     (case active d of
        None \<Rightarrow> d\<lparr>lastTickRef := Some now\<rparr>
      | Some a \<Rightarrow>
          (let last = (case lastTickRef d of None \<Rightarrow> now | Some t \<Rightarrow> t);
               dt = max 0 (rnd (rnd (now - last) / 1000));
               v = max (- 100) (min 100 (rnd (value_st d
                     + rnd (rnd ((if a = Red then 1 else - 1) * rnd (100 / fillTimeSec d)) * dt))));
               act = (if (a = Red \<and> v = 100) \<or> (a = Blue \<and> v = - 100) then None else Some a)
           in d\<lparr>value_st := v, valueRef := v, active := act, activeRef := act,
                lastTickRef := Some now\<rparr>))
     \<and> (active d = None \<longrightarrow>
          value_st (dom_tick_fl rnd t3 (setActor_fl rnd t2 (Some b) (dom_tick_fl rnd now d))) =
            max (- 100) (min 100 (rnd
              (max (- 100) (min 100 (rnd (value_st d
                  + rnd (rnd ((if b = Red then 1 else - 1) * rnd (100 / fillTimeSec d)) * rnd 0.06))))
               + rnd (rnd ((if b = Red then 1 else - 1) * rnd (100 / fillTimeSec d))
                     * max 0 (rnd (rnd (t3 - t2) / 1000)))))))"
proof -
  have active_eq: "ticker_callback_fl rnd n e =
      (let last = (case lastTickRef e of None \<Rightarrow> n | Some t \<Rightarrow> t);
           dt = max 0 (rnd (rnd (n - last) / 1000));
           v = max (- 100) (min 100 (rnd (value_st e
                 + rnd (rnd ((if a = Red then 1 else - 1) * rnd (100 / fillTimeSec e)) * dt))))
       in e\<lparr>value_st := v, valueRef := v, lastTickRef := Some n,
            active := (if (a = Red \<and> v = 100) \<or> (a = Blue \<and> v = - 100) then None else Some a)\<rparr>)"
    if s: "synced e" and f: "1 \<le> fillTimeSec e" and a: "active e = Some a" for n e a
  proof -
    define dt where
      "dt = max 0 (rnd (rnd (n - (case lastTickRef e of None \<Rightarrow> n | Some t \<Rightarrow> t)) / 1000))"
    define v where "v = max (- 100) (min 100 (rnd (value_st e
                 + rnd (rnd ((if a = Red then 1 else - 1) * rnd (100 / fillTimeSec e)) * dt))))"
    from s a f have ref: "activeRef e = Some a" and val: "valueRef e = value_st e"
      and fill: "max 1 (fillTimeRef e) = fillTimeSec e"
      by (simp_all add: synced_def)
    have hi: "100 \<le> v \<longleftrightarrow> v = 100" and lo: "v \<le> - 100 \<longleftrightarrow> v = - 100"
      unfolding v_def by (rule clamp_hi, rule clamp_lo)
    have "ticker_callback_fl rnd n e =
        (let d1 = e\<lparr>lastTickRef := Some n\<rparr>;
             d2 = (if v \<noteq> value_st e then d1\<lparr>valueRef := v, value_st := v\<rparr> else d1)
         in if (a = Red \<and> v = 100) \<or> (a = Blue \<and> v = - 100)
            then d2\<lparr>active := None\<rparr> else d2)"
      unfolding ticker_callback_fl_def ref val fill option.case Let_def direction_def
        clamp_next_eq dt_def [symmetric] v_def [symmetric] hi lo ..
    also have "\<dots> = e\<lparr>value_st := v, valueRef := v, lastTickRef := Some n,
            active := (if (a = Red \<and> v = 100) \<or> (a = Blue \<and> v = - 100) then None else Some a)\<rparr>"
      using val a by (cases e) (simp add: Let_def)
    finally show ?thesis
      unfolding Let_def dt_def [symmetric] v_def [symmetric] .
  qed
  have tick_eq: "dom_tick_fl rnd n e =
     (case active e of
        None \<Rightarrow> e\<lparr>lastTickRef := Some n\<rparr>
      | Some a \<Rightarrow>
          (let last = (case lastTickRef e of None \<Rightarrow> n | Some t \<Rightarrow> t);
               dt = max 0 (rnd (rnd (n - last) / 1000));
               v = max (- 100) (min 100 (rnd (value_st e
                     + rnd (rnd ((if a = Red then 1 else - 1) * rnd (100 / fillTimeSec e)) * dt))));
               act = (if (a = Red \<and> v = 100) \<or> (a = Blue \<and> v = - 100) then None else Some a)
           in e\<lparr>value_st := v, valueRef := v, active := act, activeRef := act,
                lastTickRef := Some n\<rparr>))"
    if s: "synced e" and f: "1 \<le> fillTimeSec e" for n e
  proof (cases "active e")
    case None
    with s have "activeRef e = None" by (simp add: synced_def)
    with None s show ?thesis
      by (simp add: dom_tick_fl_def ticker_callback_fl_def effects_idle)
  next
    case (Some a)
    from s have fill: "fillTimeRef e = fillTimeSec e" by (simp add: synced_def)
    show ?thesis
      unfolding dom_tick_fl_def active_eq [OF s f Some] Some option.case Let_def
      by (simp only: effects_after [OF fill])
  qed
  have kick_eq: "setActor_fl rnd n (Some b) e =
      e\<lparr>active := Some b, activeRef := Some b,
        value_st := max (- 100) (min 100 (rnd (value_st e
            + rnd (rnd ((if b = Red then 1 else - 1) * rnd (100 / fillTimeSec e)) * rnd 0.06)))),
        valueRef := max (- 100) (min 100 (rnd (value_st e
            + rnd (rnd ((if b = Red then 1 else - 1) * rnd (100 / fillTimeSec e)) * rnd 0.06)))),
        lastTickRef := Some n\<rparr>"
    if "synced e" and "1 \<le> fillTimeSec e" for n e
    using that
    by (cases e) (simp add: setActor_fl_def setActiveAndKick_fl_def run_effects_def synced_def
        clamp_next_eq Let_def max_absorb2 direction_def)
  have late: "value_st (dom_tick_fl rnd t3 (setActor_fl rnd t2 (Some b) (dom_tick_fl rnd now d))) =
            max (- 100) (min 100 (rnd
              (max (- 100) (min 100 (rnd (value_st d
                  + rnd (rnd ((if b = Red then 1 else - 1) * rnd (100 / fillTimeSec d)) * rnd 0.06))))
               + rnd (rnd ((if b = Red then 1 else - 1) * rnd (100 / fillTimeSec d))
                     * max 0 (rnd (rnd (t3 - t2) / 1000))))))"
    if idle: "active d = None"
  proof -
    define d1 where "d1 = dom_tick_fl rnd now d"
    define d2 where "d2 = setActor_fl rnd t2 (Some b) d1"
    define v1 where "v1 = max (- 100) (min 100 (rnd (value_st d
           + rnd (rnd ((if b = Red then 1 else - 1) * rnd (100 / fillTimeSec d)) * rnd 0.06))))"
    from assms idle have e1: "d1 = d\<lparr>lastTickRef := Some now\<rparr>"
      by (simp add: d1_def tick_eq)
    with assms have s1: "synced d1" and f1: "1 \<le> fillTimeSec d1"
      by (simp_all add: synced_def)
    have "d2 = d1\<lparr>active := Some b, activeRef := Some b, value_st := v1, valueRef := v1,
        lastTickRef := Some t2\<rparr>"
      unfolding d2_def kick_eq [OF s1 f1] v1_def by (simp add: e1)
    then have fields: "active d2 = Some b" "lastTickRef d2 = Some t2" "value_st d2 = v1"
      "fillTimeSec d2 = fillTimeSec d"
      by (simp_all add: e1)
    have s2: "synced d2"
      by (simp add: d2_def setActor_fl_def synced_effects)
    from fields assms have f2: "1 \<le> fillTimeSec d2" by simp
    have "value_st (dom_tick_fl rnd t3 d2) =
       max (- 100) (min 100 (rnd (v1
          + rnd (rnd ((if b = Red then 1 else - 1) * rnd (100 / fillTimeSec d))
                * max 0 (rnd (rnd (t3 - t2) / 1000))))))"
      by (simp add: tick_eq [OF s2 f2] fields Let_def)
    then show ?thesis
      by (simp only: d2_def d1_def v1_def)
  qed
  from tick_eq [OF assms, of now] late show ?thesis by blast
qed

text \<open>
  The witness takes exact arithmetic. Red and blue are each pressed at time 0 with a
  fill time of ten seconds and ticked ten seconds later: the value is at the side's
  bound and the actor is cleared (whatever the rounding, since the sum lies beyond the
  bound). A blue tick of half a second from 0 gives \<open>-5\<close> and keeps blue.
\<close>

theorem domination_tick_contract_witness:
  "synced (setActor_fl (\<lambda>x. x) 0 (Some Red) ten_second_fill)
   \<and> 1 \<le> fillTimeSec (setActor_fl (\<lambda>x. x) 0 (Some Red) ten_second_fill)
   \<and> value_st (dom_tick_fl (\<lambda>x. x) 10000 (setActor_fl (\<lambda>x. x) 0 (Some Red) ten_second_fill)) = 100
   \<and> active (dom_tick_fl (\<lambda>x. x) 10000 (setActor_fl (\<lambda>x. x) 0 (Some Red) ten_second_fill)) = None
   \<and> synced (setActor_fl (\<lambda>x. x) 0 (Some Blue) ten_second_fill)
   \<and> 1 \<le> fillTimeSec (setActor_fl (\<lambda>x. x) 0 (Some Blue) ten_second_fill)
   \<and> value_st (dom_tick_fl (\<lambda>x. x) 10000 (setActor_fl (\<lambda>x. x) 0 (Some Blue) ten_second_fill)) = - 100
   \<and> active (dom_tick_fl (\<lambda>x. x) 10000 (setActor_fl (\<lambda>x. x) 0 (Some Blue) ten_second_fill)) = None
   \<and> lastTickRef (dom_tick_fl (\<lambda>x. x) 10000 (setActor_fl (\<lambda>x. x) 0 (Some Blue) ten_second_fill))
       = Some 10000
   \<and> synced (ten_second_fill\<lparr>active := Some Blue, activeRef := Some Blue, lastTickRef := Some 0\<rparr>)
   \<and> dom_tick_fl (\<lambda>x. x) 500
        (ten_second_fill\<lparr>active := Some Blue, activeRef := Some Blue, lastTickRef := Some 0\<rparr>) =
       ten_second_fill\<lparr>active := Some Blue, activeRef := Some Blue, lastTickRef := Some 500,
         value_st := - 5, valueRef := - 5\<rparr>
   \<and> synced ten_second_fill \<and> 1 \<le> fillTimeSec ten_second_fill
   \<and> dom_tick_fl (\<lambda>x. x) 5000 ten_second_fill = ten_second_fill\<lparr>lastTickRef := Some 5000\<rparr>
   \<and> value_st (dom_tick_fl (\<lambda>x. x) 8000
        (setActor_fl (\<lambda>x. x) 7000 (Some Blue) (dom_tick_fl (\<lambda>x. x) 5000 ten_second_fill))) = - 10.6"
proof -
  have r: "setActor_fl (\<lambda>x. x) 0 (Some Red) ten_second_fill =
      \<lparr>value_st = 0.6, active = Some Red, fillTimeSec = 10,
       valueRef = 0.6, activeRef = Some Red, fillTimeRef = 10, lastTickRef = Some 0\<rparr>"
    by (simp add: ten_second_fill_eq setActor_fl_def setActiveAndKick_fl_def run_effects_def
        clamp_next_def direction_def Let_def)
  have b: "setActor_fl (\<lambda>x. x) 0 (Some Blue) ten_second_fill =
      \<lparr>value_st = - 0.6, active = Some Blue, fillTimeSec = 10,
       valueRef = - 0.6, activeRef = Some Blue, fillTimeRef = 10, lastTickRef = Some 0\<rparr>"
    by (simp add: ten_second_fill_eq setActor_fl_def setActiveAndKick_fl_def run_effects_def
        clamp_next_def direction_def Let_def)
  have r1: "synced (setActor_fl (\<lambda>x. x) 0 (Some Red) ten_second_fill)"
    and r2: "1 \<le> fillTimeSec (setActor_fl (\<lambda>x. x) 0 (Some Red) ten_second_fill)"
    by (simp_all add: r synced_def)
  have b1: "synced (setActor_fl (\<lambda>x. x) 0 (Some Blue) ten_second_fill)"
    and b2: "1 \<le> fillTimeSec (setActor_fl (\<lambda>x. x) 0 (Some Blue) ten_second_fill)"
    by (simp_all add: b synced_def)
  have c1: "synced (ten_second_fill\<lparr>active := Some Blue, activeRef := Some Blue, lastTickRef := Some 0\<rparr>)"
    and c2: "1 \<le> fillTimeSec
      (ten_second_fill\<lparr>active := Some Blue, activeRef := Some Blue, lastTickRef := Some 0\<rparr>)"
    by (simp_all add: ten_second_fill_eq synced_def)
  have k1: "synced ten_second_fill" and k2: "1 \<le> fillTimeSec ten_second_fill"
    by (simp_all add: ten_second_fill_eq synced_def)
  from domination_tick_contract [where rnd = "\<lambda>x. x" and now = 10000, OF r1 r2, THEN conjunct1]
  have red: "value_st (dom_tick_fl (\<lambda>x. x) 10000 (setActor_fl (\<lambda>x. x) 0 (Some Red) ten_second_fill)) = 100
      \<and> active (dom_tick_fl (\<lambda>x. x) 10000 (setActor_fl (\<lambda>x. x) 0 (Some Red) ten_second_fill)) = None"
    by (simp add: r)
  from domination_tick_contract [where rnd = "\<lambda>x. x" and now = 10000, OF b1 b2, THEN conjunct1]
  have blue: "value_st (dom_tick_fl (\<lambda>x. x) 10000 (setActor_fl (\<lambda>x. x) 0 (Some Blue) ten_second_fill)) = - 100
      \<and> active (dom_tick_fl (\<lambda>x. x) 10000 (setActor_fl (\<lambda>x. x) 0 (Some Blue) ten_second_fill)) = None
      \<and> lastTickRef (dom_tick_fl (\<lambda>x. x) 10000 (setActor_fl (\<lambda>x. x) 0 (Some Blue) ten_second_fill))
          = Some 10000"
    by (simp add: b)
  from domination_tick_contract [where rnd = "\<lambda>x. x" and now = 500, OF c1 c2, THEN conjunct1]
  have half: "dom_tick_fl (\<lambda>x. x) 500
        (ten_second_fill\<lparr>active := Some Blue, activeRef := Some Blue, lastTickRef := Some 0\<rparr>) =
       ten_second_fill\<lparr>active := Some Blue, activeRef := Some Blue, lastTickRef := Some 500,
         value_st := - 5, valueRef := - 5\<rparr>"
    by (simp add: ten_second_fill_eq Let_def)
  from domination_tick_contract [where rnd = "\<lambda>x. x" and now = 5000, OF k1 k2, THEN conjunct1]
  have idle: "dom_tick_fl (\<lambda>x. x) 5000 ten_second_fill = ten_second_fill\<lparr>lastTickRef := Some 5000\<rparr>"
    by (simp add: ten_second_fill_eq)
  from domination_tick_contract [where rnd = "\<lambda>x. x" and now = 5000 and ?t3.0 = 8000
      and ?t2.0 = 7000 and b = Blue, OF k1 k2, THEN conjunct2]
  have late: "value_st (dom_tick_fl (\<lambda>x. x) 8000
        (setActor_fl (\<lambda>x. x) 7000 (Some Blue) (dom_tick_fl (\<lambda>x. x) 5000 ten_second_fill))) = - 10.6"
    by (simp add: ten_second_fill_eq)
  have run1: "dom_tick_fl (\<lambda>x. x) 500
        (ten_second_fill\<lparr>active := Some Blue, activeRef := Some Blue, lastTickRef := Some 0\<rparr>) =
       \<lparr>value_st = - 5, active = Some Blue, fillTimeSec = 10,
        valueRef = - 5, activeRef = Some Blue, fillTimeRef = 10, lastTickRef = Some 500\<rparr>"
    by (simp add: ten_second_fill_eq dom_tick_fl_def ticker_callback_fl_def
        run_effects_def clamp_next_def direction_def Let_def)
  have run2: "dom_tick_fl (\<lambda>x. x) 10000 (setActor_fl (\<lambda>x. x) 0 (Some Red) ten_second_fill) =
       \<lparr>value_st = 100, active = None, fillTimeSec = 10,
        valueRef = 100, activeRef = None, fillTimeRef = 10, lastTickRef = Some 10000\<rparr>"
    unfolding r
    by (simp add: dom_tick_fl_def ticker_callback_fl_def
        run_effects_def clamp_next_def direction_def Let_def)
  have run3: "dom_tick_fl (\<lambda>x. x) 10000 (setActor_fl (\<lambda>x. x) 0 (Some Blue) ten_second_fill) =
       \<lparr>value_st = - 100, active = None, fillTimeSec = 10,
        valueRef = - 100, activeRef = None, fillTimeRef = 10, lastTickRef = Some 10000\<rparr>"
    unfolding b
    by (simp add: dom_tick_fl_def ticker_callback_fl_def
        run_effects_def clamp_next_def direction_def Let_def)
  from red blue half idle late run1 run2 run3 r1 r2 b1 b2 c1 k1 k2 show ?thesis by blast
qed

subsection \<open>Boundedness\<close>

text \<open>
  C3. After every sequence of presses (red, blue, pause), ticks, changes of the fill
  time and resets that starts in the initial state, the value lies in \<open>[-100, 100]\<close>.
  Every prefix of a sequence is a sequence, so this holds after each operation; the
  sequences also cover handlers that run before the effects of the previous render.
\<close>

theorem domination_bounded:
  "- 100 \<le> value_st (dom_run evs initial_domination)
   \<and> value_st (dom_run evs initial_domination) \<le> 100"
proof -
  have "in_bounds initial_domination"
    by (simp add: in_bounds_def initial_domination_def)
  then have "in_bounds (dom_run evs initial_domination)"
    by (rule in_bounds_run)
  then show ?thesis by (simp add: in_bounds_def)
qed

subsection \<open>Clearing the actor at a bound\<close>

text \<open>
  C6, as the code has it. The actor is cleared by the ticker only. On a rendered
  state, after any tick the actor is never red with the value at \<open>+100\<close> and never
  blue with the value at \<open>-100\<close>. A press never clears the actor: after
  \<open>setActor(side)\<close> the actor is that side, also when the kick ends at the side's
  bound; the tick that follows then clears the actor and leaves the value at the bound.
\<close>

theorem actor_cleared_by_tick:
  assumes "synced d"
  shows "\<not> (active (dom_tick now d) = Some Red \<and> 100 \<le> value_st (dom_tick now d))
       \<and> \<not> (active (dom_tick now d) = Some Blue \<and> value_st (dom_tick now d) \<le> - 100)
       \<and> active (setActor t (Some a) d) = Some a
       \<and> (active d = Some Red \<and> value_st d = 100 \<longrightarrow>
            active (dom_tick now d) = None \<and> value_st (dom_tick now d) = 100)
       \<and> (active d = Some Blue \<and> value_st d = - 100 \<longrightarrow>
            active (dom_tick now d) = None \<and> value_st (dom_tick now d) = - 100)"
proof -
  have p1: "\<not> (active (dom_tick now d) = Some Red \<and> 100 \<le> value_st (dom_tick now d))"
  proof (cases "active d")
    case None
    with assms show ?thesis by (simp add: tick_idle_fields)
  next
    case (Some b)
    show ?thesis using tick_fields(2) [OF assms Some, of now] by (auto split: if_splits)
  qed
  have p2: "\<not> (active (dom_tick now d) = Some Blue \<and> value_st (dom_tick now d) \<le> - 100)"
  proof (cases "active d")
    case None
    with assms show ?thesis by (simp add: tick_idle_fields)
  next
    case (Some b)
    show ?thesis using tick_fields(2) [OF assms Some, of now] by (auto split: if_splits)
  qed
  have p3: "active (setActor t (Some a) d) = Some a"
    by (rule kick_fields(1))
  have p4: "active (dom_tick now d) = None \<and> value_st (dom_tick now d) = 100"
    if h: "active d = Some Red \<and> value_st d = 100"
  proof -
    from h have a: "active d = Some Red" and v: "value_st d = 100" by simp_all
    have "value_st (dom_tick now d) = 100"
      using step_nonneg [of "fillTimeRef d" now "lastTickRef d"]
      by (simp add: tick_fields(1) [OF assms a] v direction_def clamp_next_def Let_def)
    then show ?thesis using tick_fields(2) [OF assms a, of now] by simp
  qed
  have p5: "active (dom_tick now d) = None \<and> value_st (dom_tick now d) = - 100"
    if h: "active d = Some Blue \<and> value_st d = - 100"
  proof -
    from h have a: "active d = Some Blue" and v: "value_st d = - 100" by simp_all
    have "value_st (dom_tick now d) = - 100"
      using step_nonneg [of "fillTimeRef d" now "lastTickRef d"]
      by (simp add: tick_fields(1) [OF assms a] v direction_def clamp_next_def Let_def)
    then show ?thesis using tick_fields(2) [OF assms a, of now] by simp
  qed
  from p1 p2 p3 p4 p5 show ?thesis by blast
qed

theorem actor_cleared_by_tick_witness:
  "synced pressed_at_full
   \<and> active pressed_at_full = Some Red \<and> value_st pressed_at_full = 100
   \<and> active (dom_tick 61050 pressed_at_full) = None
   \<and> value_st (dom_tick 61050 pressed_at_full) = 100"
proof -
  have h: "synced pressed_at_full"
    by (simp add: pressed_at_full_def synced_effects)
  from actor_cleared_by_tick [OF h, of 61050] pressed_at_full_fields h show ?thesis
    by simp
qed

text \<open>
  Red completes the capture, the ticker clears the actor, and red is pressed again: the
  press leaves the value at \<open>+100\<close> with red as the actor.
\<close>

theorem actor_at_bound_counterexample:
  "value_st pressed_at_full = 100 \<and> active pressed_at_full = Some Red
   \<and> active pressed_at_full \<noteq> None"
  using pressed_at_full_fields by simp

subsection \<open>The kick\<close>

text \<open>
  C7. On a rendered state with a fill time of at least one second, \<open>setActor(side)\<close>
  with a side sets the actor to that side, moves the value by
  \<open>direction * (100 / fillTime) * 0.06\<close> (60 ms at the current rate) with direction
  \<open>+1\<close> for red and \<open>-1\<close> for blue, clamps it to \<open>[-100, 100]\<close> and stamps the
  current time; \<open>setActor(null)\<close> sets the actor to none and changes nothing else, so
  the value stays as it was. The arithmetic is that of doubles: every operation is
  rounded by \<open>rnd\<close>, for every rounding.
\<close>

theorem kick_contract:
  assumes "synced d" and "1 \<le> fillTimeSec d"
  shows "setActor_fl rnd now (Some a) d =
           d\<lparr>active := Some a, activeRef := Some a,
             value_st := max (- 100) (min 100 (rnd (value_st d
                 + rnd (rnd ((if a = Red then 1 else - 1) * rnd (100 / fillTimeSec d)) * rnd 0.06)))),
             valueRef := max (- 100) (min 100 (rnd (value_st d
                 + rnd (rnd ((if a = Red then 1 else - 1) * rnd (100 / fillTimeSec d)) * rnd 0.06)))),
             lastTickRef := Some now\<rparr>
         \<and> setActor_fl rnd now None d = d\<lparr>active := None, activeRef := None\<rparr>"
proof (rule conjI)
  show "setActor_fl rnd now (Some a) d =
           d\<lparr>active := Some a, activeRef := Some a,
             value_st := max (- 100) (min 100 (rnd (value_st d
                 + rnd (rnd ((if a = Red then 1 else - 1) * rnd (100 / fillTimeSec d)) * rnd 0.06)))),
             valueRef := max (- 100) (min 100 (rnd (value_st d
                 + rnd (rnd ((if a = Red then 1 else - 1) * rnd (100 / fillTimeSec d)) * rnd 0.06)))),
             lastTickRef := Some now\<rparr>"
    using assms
    by (cases d) (simp add: setActor_fl_def setActiveAndKick_fl_def run_effects_def synced_def
        clamp_next_eq Let_def max_absorb2 direction_def)
  show "setActor_fl rnd now None d = d\<lparr>active := None, activeRef := None\<rparr>"
    using assms(1)
    by (cases d) (simp add: setActor_fl_def setActiveAndKick_fl_def run_effects_def synced_def)
qed

text \<open>
  The witness takes exact arithmetic and a fill time of ten seconds: from 0 the red
  kick gives \<open>0.6\<close> and the blue kick \<open>-0.6\<close>.
\<close>

theorem kick_contract_witness:
  "synced ten_second_fill \<and> 1 \<le> fillTimeSec ten_second_fill
   \<and> setActor_fl (\<lambda>x. x) 250 (Some Red) ten_second_fill =
       \<lparr>value_st = 0.6, active = Some Red, fillTimeSec = 10,
        valueRef = 0.6, activeRef = Some Red, fillTimeRef = 10, lastTickRef = Some 250\<rparr>
   \<and> setActor_fl (\<lambda>x. x) 250 (Some Blue) ten_second_fill =
       \<lparr>value_st = - 0.6, active = Some Blue, fillTimeSec = 10,
        valueRef = - 0.6, activeRef = Some Blue, fillTimeRef = 10, lastTickRef = Some 250\<rparr>
   \<and> setActor_fl (\<lambda>x. x) 250 None ten_second_fill = ten_second_fill"
proof -
  have h1: "synced ten_second_fill"
    by (simp add: ten_second_fill_eq synced_def)
  have h2: "1 \<le> fillTimeSec ten_second_fill"
    by (simp add: ten_second_fill_eq)
  have red: "setActor_fl (\<lambda>x. x) 250 (Some Red) ten_second_fill =
       \<lparr>value_st = 0.6, active = Some Red, fillTimeSec = 10,
        valueRef = 0.6, activeRef = Some Red, fillTimeRef = 10, lastTickRef = Some 250\<rparr>"
    by (simp add: ten_second_fill_eq setActor_fl_def setActiveAndKick_fl_def run_effects_def
        clamp_next_def direction_def Let_def)
  have blue: "setActor_fl (\<lambda>x. x) 250 (Some Blue) ten_second_fill =
       \<lparr>value_st = - 0.6, active = Some Blue, fillTimeSec = 10,
        valueRef = - 0.6, activeRef = Some Blue, fillTimeRef = 10, lastTickRef = Some 250\<rparr>"
    by (simp add: ten_second_fill_eq setActor_fl_def setActiveAndKick_fl_def run_effects_def
        clamp_next_def direction_def Let_def)
  from kick_contract [where rnd = "\<lambda>x. x" and now = 250 and a = Red, OF h1 h2]
    kick_contract [where rnd = "\<lambda>x. x" and now = 250 and a = Blue, OF h1 h2] red blue h1 h2
  show ?thesis
    by (simp add: ten_second_fill_eq)
qed

subsection \<open>Red and blue are mirror images\<close>

text \<open>
  C10. Let \<open>mirror\<close> negate the value and exchange red and blue. A tick commutes with
  \<open>mirror\<close>, and so does a press when the pressed side is exchanged as well: a tick
  with blue from \<open>v\<close> gives the negation of the value a tick with red gives from
  \<open>-v\<close>, the kick of blue from \<open>v\<close> is the negation of the kick of red from \<open>-v\<close>,
  and the actor is cleared in the one case exactly when it is cleared in the other.
  This holds for every value, fill time and pair of time stamps.
\<close>

theorem red_blue_mirror:
  "dom_tick now (mirror d) = mirror (dom_tick now d)
   \<and> setActor now (map_option opposite sd) (mirror d) = mirror (setActor now sd d)
   \<and> ticker_callback now (mirror d) = mirror (ticker_callback now d)
   \<and> setActiveAndKick now (map_option opposite sd) (mirror d) = mirror (setActiveAndKick now sd d)
   \<and> value_st (mirror d) = - value_st d
   \<and> active (mirror d) = map_option opposite (active d)
   \<and> value_st (dom_tick now (mirror d)) = - value_st (dom_tick now d)
   \<and> (active (dom_tick now (mirror d)) = None \<longleftrightarrow> active (dom_tick now d) = None)
   \<and> value_st (setActor now (Some Blue) (mirror d)) = - value_st (setActor now (Some Red) d)"
proof -
  have t: "dom_tick now (mirror d) = mirror (dom_tick now d)"
    by (simp add: dom_tick_def mirror_ticker mirror_effects)
  have k: "setActor now (map_option opposite sd') (mirror d) = mirror (setActor now sd' d)" for sd'
    by (simp add: setActor_def mirror_kick mirror_effects)
  have m: "value_st (mirror d') = - value_st d'"
    "active (mirror d') = map_option opposite (active d')" for d'
    by (simp_all add: mirror_def)
  have kb: "value_st (setActor now (Some Blue) (mirror d)) = - value_st (setActor now (Some Red) d)"
    using k [of "Some Red"] by (simp add: m)
  show ?thesis
    by (simp add: t k kb mirror_ticker mirror_kick m)
qed

end
